theory Spec2Isabelle
  imports Main
begin

section \<open>The generated header \<^verbatim>\<open>rtl/ecc/ECC.h\<close>\<close>

text \<open>
  The repository file is a C header of preprocessor lines only. It is embedded as the list
  of its source lines, character for character and in file order. Its meaning is what the
  C preprocessor computes from these lines: a table of object-like macros and the text that
  is passed on to the compiler.
\<close>

definition ECC_h :: "string list" where
  \<open>ECC_h =
    [''// Generated register defines for HCI_ECC_manager'',
     [],
     ''#ifndef _HCI_ECC_MANAGER_REG_DEFS_'',
     ''#define _HCI_ECC_MANAGER_REG_DEFS_'',
     [],
     ''#ifdef __cplusplus'',
     ''extern "C" {'',
     ''#endif'',
     ''// Register width'',
     ''#define HCI_ECC_MANAGER_PARAM_REG_WIDTH 32'',
     [],
     ''// Correctable errors on data caught by ecc on interconnect'',
     ''#define HCI_ECC_MANAGER_DATA_CORRECTABLE_ERRORS_REG_OFFSET 0x0'',
     [],
     ''// Uncorrectable errors on data caught by ecc on interconnect'',
     ''#define HCI_ECC_MANAGER_DATA_UNCORRECTABLE_ERRORS_REG_OFFSET 0x4'',
     [],
     ''// Correctable errors caught on metadata by ecc on interconnect'',
     ''#define HCI_ECC_MANAGER_METADATA_CORRECTABLE_ERRORS_REG_OFFSET 0x8'',
     [],
     ''// Uncorrectable errors caught on metadata by ecc on interconnect'',
     ''#define HCI_ECC_MANAGER_METADATA_UNCORRECTABLE_ERRORS_REG_OFFSET 0xc'',
     [],
     ''#ifdef __cplusplus'',
     ''}  // extern "C"'',
     ''#endif'',
     ''#endif  // _HCI_ECC_MANAGER_REG_DEFS_'',
     ''// End generated register defines for HCI_ECC_manager'']\<close>

section \<open>Reading one source line\<close>

text \<open>
  The header uses blank lines, \<^verbatim>\<open>//\<close> comments, the directives \<^verbatim>\<open>#ifndef\<close>,
  \<^verbatim>\<open>#ifdef\<close>, \<^verbatim>\<open>#define\<close> (object-like) and \<^verbatim>\<open>#endif\<close>, and two lines of
  program text. Any other directive is kept as \<open>Unsupported\<close> and is an error when it is
  reached in an active group.
\<close>

datatype pp_line =
    Blank
  | Ifndef string
  | Ifdef string
  | Define string string
  | Endif
  | Text string
  | Unsupported string

definition is_space :: "char \<Rightarrow> bool" where
  "is_space c = (c = CHR '' '' \<or> c = CHR 0x09)"

text \<open>
  A \<^verbatim>\<open>//\<close> comment runs to the end of the line, unless the two slashes stand inside a
  string literal; the flag says whether a double quote is open.
\<close>

fun strip_comment :: "bool \<Rightarrow> string \<Rightarrow> string" where
  "strip_comment q [] = []"
| "strip_comment q [c] = [c]"
| "strip_comment q (c # d # cs) =
     (if c = CHR 0x22 then c # strip_comment (\<not> q) (d # cs)
      else if \<not> q \<and> c = CHR ''/'' \<and> d = CHR ''/'' then []
      else c # strip_comment q (d # cs))"

definition trim :: "string \<Rightarrow> string" where
  "trim s = rev (dropWhile is_space (rev (dropWhile is_space s)))"

definition first_word :: "string \<Rightarrow> string" where
  "first_word s = takeWhile (\<lambda>c. \<not> is_space c) s"

definition rest_words :: "string \<Rightarrow> string" where
  "rest_words s = trim (dropWhile (\<lambda>c. \<not> is_space c) s)"

definition parse_line :: "string \<Rightarrow> pp_line" where
  "parse_line raw =
     (case trim (strip_comment False raw) of
        [] \<Rightarrow> Blank
      | c # cs \<Rightarrow>
          if c = CHR ''#'' then
            (let d = trim cs; kw = first_word d; arg = rest_words d in
             if kw = ''ifndef'' then Ifndef (first_word arg)
             else if kw = ''ifdef'' then Ifdef (first_word arg)
             else if kw = ''define'' then Define (first_word arg) (rest_words arg)
             else if kw = ''endif'' then Endif
             else Unsupported kw)
          else Text (c # cs))"

section \<open>The preprocessor on a translation unit\<close>

text \<open>
  A translation unit, as far as this header can see it: the macros defined so far, in
  definition order (name and replacement text), and the program text emitted so far.
\<close>

record unit_state =
  macros :: "(string \<times> string) list"
  emitted :: "string list"

datatype pp_error =
    Redefinition string
  | Endif_without_if
  | Unterminated_conditional
  | Unsupported_directive string

text \<open>
  The stack holds one flag per open conditional; a line is active when every enclosing
  group is. Defining a macro again with the same replacement text is accepted and changes
  nothing; a different replacement text is the duplicate-definition error. That is the
  rule of the C standard (a constraint violation); a compiler may instead warn and take the
  new text. The run of the header in a unit that is fresh for it, and in a unit that has
  included it before, never comes to that branch.
\<close>

definition active :: "bool list \<Rightarrow> bool" where
  "active cs = list_all (\<lambda>b. b) cs"

fun step :: "pp_line \<Rightarrow> bool list \<Rightarrow> unit_state \<Rightarrow> pp_error + (bool list \<times> unit_state)" where
  "step Blank cs st = Inr (cs, st)"
| "step (Ifndef n) cs st = Inr ((active cs \<and> map_of (macros st) n = None) # cs, st)"
| "step (Ifdef n) cs st = Inr ((active cs \<and> map_of (macros st) n \<noteq> None) # cs, st)"
| "step Endif cs st = (case cs of [] \<Rightarrow> Inl Endif_without_if | _ # cs' \<Rightarrow> Inr (cs', st))"
| "step (Define n b) cs st =
     (if active cs then
        (case map_of (macros st) n of
           None \<Rightarrow> Inr (cs, st\<lparr>macros := macros st @ [(n, b)]\<rparr>)
         | Some b' \<Rightarrow> if b' = b then Inr (cs, st) else Inl (Redefinition n))
      else Inr (cs, st))"
| "step (Text t) cs st =
     (if active cs then Inr (cs, st\<lparr>emitted := emitted st @ [t]\<rparr>) else Inr (cs, st))"
| "step (Unsupported d) cs st =
     (if active cs then Inl (Unsupported_directive d) else Inr (cs, st))"

fun run :: "pp_line list \<Rightarrow> bool list \<Rightarrow> unit_state \<Rightarrow> pp_error + unit_state" where
  "run [] cs st = (if cs = [] then Inr st else Inl Unterminated_conditional)"
| "run (l # ls) cs st =
     (case step l cs st of
        Inl e \<Rightarrow> Inl e
      | Inr (cs', st') \<Rightarrow> run ls cs' st')"

text \<open>Including a file: its lines are read and run; its conditionals must balance.\<close>

definition include_file :: "string list \<Rightarrow> unit_state \<Rightarrow> pp_error + unit_state" where
  "include_file file st = run (map parse_line file) [] st"

text \<open>
  Two inclusions in one translation unit, one after the other; the second starts from the
  unit the first one left, and an error of the first ends the translation.
\<close>

definition include_twice :: "string list \<Rightarrow> unit_state \<Rightarrow> pp_error + unit_state" where
  "include_twice file st =
     (case include_file file st of
        Inl e \<Rightarrow> Inl e
      | Inr st' \<Rightarrow> include_file file st')"

text \<open>
  A C translation unit does not define \<^verbatim>\<open>__cplusplus\<close>; a C++ translation unit has it
  predefined, with some replacement text \<open>v\<close> (the language version).
\<close>

definition c_unit :: unit_state where
  "c_unit = \<lparr>macros = [], emitted = []\<rparr>"

definition cpp_unit :: "string \<Rightarrow> unit_state" where
  "cpp_unit v = \<lparr>macros = [(''__cplusplus'', v)], emitted = []\<rparr>"

section \<open>The constants as a consumer reads them\<close>

text \<open>
  The replacement texts of the header are C integer constants: \<^verbatim>\<open>32\<close> is decimal and
  \<^verbatim>\<open>0x0\<close>, \<^verbatim>\<open>0x4\<close>, \<^verbatim>\<open>0x8\<close>, \<^verbatim>\<open>0xc\<close> are hexadecimal. A leading \<^verbatim>\<open>0\<close> without
  \<^verbatim>\<open>x\<close> is octal in C. Suffixes are not used by the header and are not read.
\<close>

definition digit_val :: "char \<Rightarrow> nat option" where
  "digit_val c =
     (let n = (of_char c :: nat) in
      if 48 \<le> n \<and> n \<le> 57 then Some (n - 48)
      else if 97 \<le> n \<and> n \<le> 102 then Some (n - 87)
      else if 65 \<le> n \<and> n \<le> 70 then Some (n - 55)
      else None)"

fun digits_val :: "nat \<Rightarrow> string \<Rightarrow> nat \<Rightarrow> nat option" where
  "digits_val base [] acc = Some acc"
| "digits_val base (c # cs) acc =
     (case digit_val c of
        None \<Rightarrow> None
      | Some d \<Rightarrow> if d < base then digits_val base cs (acc * base + d) else None)"

definition c_int_literal :: "string \<Rightarrow> nat option" where
  "c_int_literal s =
     (if s = [] then None
      else if take 2 s = ''0x'' \<or> take 2 s = ''0X'' then
        (if drop 2 s = [] then None else digits_val 16 (drop 2 s) 0)
      else if hd s = CHR ''0'' then digits_val 8 s 0
      else digits_val 10 s 0)"

text \<open>
  Using a name in the consumer's code: the macro is replaced by its text and the text is
  read as an integer constant. Both steps can fail for an arbitrary name.
\<close>

datatype lookup_error = Undefined_name | Not_an_integer

definition constant_value :: "unit_state \<Rightarrow> string \<Rightarrow> lookup_error + nat" where
  "constant_value st n =
     (case map_of (macros st) n of
        None \<Rightarrow> Inl Undefined_name
      | Some b \<Rightarrow>
          (case c_int_literal b of
             None \<Rightarrow> Inl Not_an_integer
           | Some v \<Rightarrow> Inr v))"

section \<open>The register block behind the macro names\<close>

text \<open>
  The names of the header follow one pattern: the block prefix \<^verbatim>\<open>HCI_ECC_MANAGER_\<close>, then
  either \<^verbatim>\<open>PARAM_REG_WIDTH\<close> or a register name followed by \<^verbatim>\<open>_REG_OFFSET\<close>. The
  register block of a translation unit is read back from its macro table, the registers in
  definition order.
\<close>

record register_def =
  reg_name :: string
  reg_offset :: nat

record register_block =
  param_width :: nat
  registers :: "register_def list"

definition block_prefix :: string where
  "block_prefix = ''HCI_ECC_MANAGER_''"

definition offset_suffix :: string where
  "offset_suffix = ''_REG_OFFSET''"

definition width_macro :: string where
  "width_macro = ''HCI_ECC_MANAGER_PARAM_REG_WIDTH''"

definition guard_macro :: string where
  "guard_macro = ''_HCI_ECC_MANAGER_REG_DEFS_''"

definition starts_with :: "string \<Rightarrow> string \<Rightarrow> bool" where
  "starts_with p s = (take (length p) s = p)"

definition ends_with :: "string \<Rightarrow> string \<Rightarrow> bool" where
  "ends_with x s = (length x \<le> length s \<and> drop (length s - length x) s = x)"

definition is_offset_macro :: "string \<Rightarrow> bool" where
  "is_offset_macro n =
     (length block_prefix + length offset_suffix \<le> length n \<and>
      starts_with block_prefix n \<and> ends_with offset_suffix n)"

definition short_name :: "string \<Rightarrow> string" where
  "short_name n =
     take (length n - length block_prefix - length offset_suffix)
       (drop (length block_prefix) n)"

fun registers_of :: "(string \<times> string) list \<Rightarrow> register_def list option" where
  "registers_of [] = Some []"
| "registers_of ((n, b) # ms) =
     (if is_offset_macro n then
        (case c_int_literal b of
           None \<Rightarrow> None
         | Some v \<Rightarrow>
             (case registers_of ms of
                None \<Rightarrow> None
              | Some rs \<Rightarrow> Some (\<lparr>reg_name = short_name n, reg_offset = v\<rparr> # rs)))
      else registers_of ms)"

definition block_of :: "(string \<times> string) list \<Rightarrow> register_block option" where
  "block_of ms =
     (case map_of ms width_macro of
        None \<Rightarrow> None
      | Some b \<Rightarrow>
          (case c_int_literal b of
             None \<Rightarrow> None
           | Some w \<Rightarrow>
               (case registers_of ms of
                  None \<Rightarrow> None
                | Some rs \<Rightarrow> Some \<lparr>param_width = w, registers = rs\<rparr>)))"

text \<open>The register block a translation unit sees after including the header.\<close>

definition included_block :: "unit_state \<Rightarrow> register_block option" where
  "included_block st =
     (case include_file ECC_h st of
        Inl e \<Rightarrow> None
      | Inr st' \<Rightarrow> block_of (macros st'))"

text \<open>
  A unit is fresh for the header when it has defined neither the guard nor any name under
  the block prefix before the inclusion.
\<close>

definition fresh :: "unit_state \<Rightarrow> bool" where
  "fresh st =
     list_all (\<lambda>(n, b). n \<noteq> guard_macro \<and> \<not> starts_with block_prefix n) (macros st)"

section \<open>Properties of the preprocessor run\<close>

text \<open>
  The lines of the header, read once. Everything below runs on this list of directives.
\<close>

lemma ECC_h_parsed:
  \<open>map parse_line ECC_h =
    [Blank, Blank,
     Ifndef ''_HCI_ECC_MANAGER_REG_DEFS_'',
     Define ''_HCI_ECC_MANAGER_REG_DEFS_'' [],
     Blank,
     Ifdef ''__cplusplus'',
     Text ''extern "C" {'',
     Endif,
     Blank,
     Define ''HCI_ECC_MANAGER_PARAM_REG_WIDTH'' ''32'',
     Blank, Blank,
     Define ''HCI_ECC_MANAGER_DATA_CORRECTABLE_ERRORS_REG_OFFSET'' ''0x0'',
     Blank, Blank,
     Define ''HCI_ECC_MANAGER_DATA_UNCORRECTABLE_ERRORS_REG_OFFSET'' ''0x4'',
     Blank, Blank,
     Define ''HCI_ECC_MANAGER_METADATA_CORRECTABLE_ERRORS_REG_OFFSET'' ''0x8'',
     Blank, Blank,
     Define ''HCI_ECC_MANAGER_METADATA_UNCORRECTABLE_ERRORS_REG_OFFSET'' ''0xc'',
     Blank,
     Ifdef ''__cplusplus'',
     Text ''}'',
     Endif,
     Endif,
     Blank]\<close>
  by code_simp

text \<open>
  With the guard defined, the whole body is an inactive group and the unit is returned as
  it was.
\<close>

lemma guarded_skip:
  assumes "map_of (macros u) ''_HCI_ECC_MANAGER_REG_DEFS_'' = Some x"
  shows "include_file ECC_h u = Inr u"
  using assms by (simp add: include_file_def ECC_h_parsed active_def)

text \<open>
  A run only appends: to the macros and to the emitted text. No directive of the model
  removes or replaces a macro.
\<close>

lemma step_extends:
  "step l cs st = Inr (cs', st') \<Longrightarrow>
     \<exists>zs ys. macros st' = macros st @ zs \<and> emitted st' = emitted st @ ys"
  by (cases l) (auto split: if_splits option.splits list.splits)

lemma run_extends:
  "run ls cs st = Inr st' \<Longrightarrow>
     \<exists>zs ys. macros st' = macros st @ zs \<and> emitted st' = emitted st @ ys"
proof (induction ls arbitrary: cs st)
  case Nil
  then show ?case by (simp split: if_splits)
next
  case (Cons l ls)
  from Cons.prems obtain cs1 st1 where s: "step l cs st = Inr (cs1, st1)"
    and r: "run ls cs1 st1 = Inr st'"
    by (auto split: sum.splits)
  from step_extends [OF s] Cons.IH [OF r] show ?case by auto
qed

lemma map_of_kept: "map_of xs n = Some b \<Longrightarrow> map_of (xs @ zs) n = Some b"
  by simp

text \<open>
  The header in three parts: the guard opens, the linkage block opens, the definitions
  follow, the linkage block and the guard close. The definitions neither emit text nor
  touch a name they do not define.
\<close>

lemma run_guard_open:
  "run (Blank # Blank # Ifndef g # Define g b # rest) [] u =
     (if map_of (macros u) g = None
      then run rest [True] (u\<lparr>macros := macros u @ [(g, b)]\<rparr>)
      else run rest [False] u)"
  by (auto simp add: active_def)

lemma run_guard_open_None:
  "map_of (macros u) g = None \<Longrightarrow>
     run (Blank # Blank # Ifndef g # Define g b # rest) [] u =
       run rest [True] (u\<lparr>macros := macros u @ [(g, b)]\<rparr>)"
  by (simp add: active_def)

lemma run_linkage:
  "run (Blank # Ifdef c # Text t # Endif # rest) [True] u =
     run rest [True] (if map_of (macros u) c = None then u else u\<lparr>emitted := emitted u @ [t]\<rparr>)"
  by (simp add: active_def)

lemma run_close:
  "run [Ifdef c, Text t, Endif, Endif, Blank] [True] u =
     Inr (if map_of (macros u) c = None then u else u\<lparr>emitted := emitted u @ [t]\<rparr>)"
  by (simp add: active_def)

lemma run_plain:
  assumes "\<forall>l\<in>set ps. l = Blank \<or> (\<exists>n b. l = Define n b \<and> n \<noteq> c)"
    and "run (ps @ ls) cs st = Inr st'"
  shows "\<exists>st1. run ls cs st1 = Inr st' \<and> emitted st1 = emitted st \<and>
           map_of (macros st1) c = map_of (macros st) c"
  using assms
proof (induction ps arbitrary: st)
  case Nil
  then show ?case by auto
next
  case (Cons l ps)
  from Cons.prems(1) have l: "l = Blank \<or> (\<exists>n b. l = Define n b \<and> n \<noteq> c)"
    and ps: "\<forall>l\<in>set ps. l = Blank \<or> (\<exists>n b. l = Define n b \<and> n \<noteq> c)"
    by simp_all
  from Cons.prems(2) obtain cs1 st0 where s: "step l cs st = Inr (cs1, st0)"
    and r: "run (ps @ ls) cs1 st0 = Inr st'"
    by (auto split: sum.splits)
  from l s have same: "cs1 = cs \<and> emitted st0 = emitted st \<and>
      map_of (macros st0) c = map_of (macros st) c"
    by (auto split: if_splits option.splits simp: map_add_def)
  with r have "run (ps @ ls) cs st0 = Inr st'" by simp
  from Cons.IH [OF ps this] same show ?case by auto
qed

lemma emitted_any:
  assumes inc: "include_file ECC_h u = Inr u'"
  shows \<open>emitted u' = emitted u @
     (if map_of (macros u) ''_HCI_ECC_MANAGER_REG_DEFS_'' = None \<and>
         map_of (macros u) ''__cplusplus'' \<noteq> None
      then [''extern "C" {'', ''}''] else [])\<close>
proof (cases "map_of (macros u) ''_HCI_ECC_MANAGER_REG_DEFS_''")
  case (Some x)
  from guarded_skip [OF Some] inc have "u' = u" by simp
  with Some show ?thesis by simp
next
  case None
  define u1 where "u1 = u\<lparr>macros := macros u @ [(''_HCI_ECC_MANAGER_REG_DEFS_'', [])]\<rparr>"
  define u2 where \<open>u2 = (if map_of (macros u1) ''__cplusplus'' = None then u1
     else u1\<lparr>emitted := emitted u1 @ [''extern "C" {'']\<rparr>)\<close>
  define ps where "ps =
    [Blank,
     Define ''HCI_ECC_MANAGER_PARAM_REG_WIDTH'' ''32'',
     Blank, Blank,
     Define ''HCI_ECC_MANAGER_DATA_CORRECTABLE_ERRORS_REG_OFFSET'' ''0x0'',
     Blank, Blank,
     Define ''HCI_ECC_MANAGER_DATA_UNCORRECTABLE_ERRORS_REG_OFFSET'' ''0x4'',
     Blank, Blank,
     Define ''HCI_ECC_MANAGER_METADATA_CORRECTABLE_ERRORS_REG_OFFSET'' ''0x8'',
     Blank, Blank,
     Define ''HCI_ECC_MANAGER_METADATA_UNCORRECTABLE_ERRORS_REG_OFFSET'' ''0xc'',
     Blank]"
  have plain: "\<forall>l\<in>set ps. l = Blank \<or> (\<exists>n b. l = Define n b \<and> n \<noteq> ''__cplusplus'')"
    by (simp add: ps_def)
  have cpp1: "map_of (macros u1) ''__cplusplus'' = map_of (macros u) ''__cplusplus''"
    by (simp add: u1_def map_add_def split: option.splits)
  have "run (ps @ [Ifdef ''__cplusplus'', Text ''}'', Endif, Endif, Blank]) [True] u2 = Inr u'"
    using inc None
    unfolding include_file_def ECC_h_parsed run_guard_open run_linkage u1_def u2_def ps_def
    by simp
  from run_plain [OF plain this] obtain u3
    where r: "run [Ifdef ''__cplusplus'', Text ''}'', Endif, Endif, Blank] [True] u3 = Inr u'"
      and e: "emitted u3 = emitted u2"
      and c: "map_of (macros u3) ''__cplusplus'' = map_of (macros u2) ''__cplusplus''"
    by blast
  have c2: "map_of (macros u2) ''__cplusplus'' = map_of (macros u) ''__cplusplus''"
    using cpp1 by (simp add: u2_def)
  from r have "u' = (if map_of (macros u3) ''__cplusplus'' = None then u3
      else u3\<lparr>emitted := emitted u3 @ [''}'']\<rparr>)"
    unfolding run_close by simp
  then show ?thesis
    using e c c2 cpp1 None by (auto simp add: u2_def u1_def)
qed

text \<open>Inclusion into a unit that is fresh for the header.\<close>

lemma map_of_none_if:
  "list_all (\<lambda>(n, b). P n) xs \<Longrightarrow> \<not> P k \<Longrightarrow> map_of xs k = None"
  by (induction xs) auto

lemma fresh_guard: "fresh u \<Longrightarrow> map_of (macros u) ''_HCI_ECC_MANAGER_REG_DEFS_'' = None"
  unfolding fresh_def
  by (erule map_of_none_if) (simp add: guard_macro_def)

lemma fresh_block:
  "fresh u \<Longrightarrow> starts_with block_prefix n \<Longrightarrow> map_of (macros u) n = None"
  unfolding fresh_def
  by (erule map_of_none_if) simp

lemma include_fresh:
  assumes "fresh u"
  shows \<open>include_file ECC_h u = Inr (u
    \<lparr>macros := macros u @
       [(''_HCI_ECC_MANAGER_REG_DEFS_'', []),
        (''HCI_ECC_MANAGER_PARAM_REG_WIDTH'', ''32''),
        (''HCI_ECC_MANAGER_DATA_CORRECTABLE_ERRORS_REG_OFFSET'', ''0x0''),
        (''HCI_ECC_MANAGER_DATA_UNCORRECTABLE_ERRORS_REG_OFFSET'', ''0x4''),
        (''HCI_ECC_MANAGER_METADATA_CORRECTABLE_ERRORS_REG_OFFSET'', ''0x8''),
        (''HCI_ECC_MANAGER_METADATA_UNCORRECTABLE_ERRORS_REG_OFFSET'', ''0xc'')],
     emitted := emitted u @
       (if map_of (macros u) ''__cplusplus'' = None then [] else [''extern "C" {'', ''}''])\<rparr>)\<close>
proof -
  have g: "map_of (macros u) ''_HCI_ECC_MANAGER_REG_DEFS_'' = None"
    using assms by (rule fresh_guard)
  have w: "map_of (macros u) ''HCI_ECC_MANAGER_PARAM_REG_WIDTH'' = None"
    using assms by (rule fresh_block) (simp add: starts_with_def block_prefix_def)
  have dc: "map_of (macros u) ''HCI_ECC_MANAGER_DATA_CORRECTABLE_ERRORS_REG_OFFSET'' = None"
    using assms by (rule fresh_block) (simp add: starts_with_def block_prefix_def)
  have du: "map_of (macros u) ''HCI_ECC_MANAGER_DATA_UNCORRECTABLE_ERRORS_REG_OFFSET'' = None"
    using assms by (rule fresh_block) (simp add: starts_with_def block_prefix_def)
  have mc: "map_of (macros u) ''HCI_ECC_MANAGER_METADATA_CORRECTABLE_ERRORS_REG_OFFSET'' = None"
    using assms by (rule fresh_block) (simp add: starts_with_def block_prefix_def)
  have mu: "map_of (macros u) ''HCI_ECC_MANAGER_METADATA_UNCORRECTABLE_ERRORS_REG_OFFSET'' = None"
    using assms by (rule fresh_block) (simp add: starts_with_def block_prefix_def)
  show ?thesis
  proof (cases "map_of (macros u) ''__cplusplus''")
    case None
    then show ?thesis
      by (simp add: include_file_def ECC_h_parsed active_def map_add_def g w dc du mc mu)
  next
    case (Some v)
    then show ?thesis
      by (simp add: include_file_def ECC_h_parsed active_def map_add_def g w dc du mc mu)
  qed
qed

lemma registers_of_skip:
  "list_all (\<lambda>(n, b). n \<noteq> guard_macro \<and> \<not> starts_with block_prefix n) xs \<Longrightarrow>
     registers_of (xs @ ys) = registers_of ys"
  by (induction xs) (auto simp: is_offset_macro_def)

lemma header_registers:
  "registers_of
     [(''_HCI_ECC_MANAGER_REG_DEFS_'', []),
      (''HCI_ECC_MANAGER_PARAM_REG_WIDTH'', ''32''),
      (''HCI_ECC_MANAGER_DATA_CORRECTABLE_ERRORS_REG_OFFSET'', ''0x0''),
      (''HCI_ECC_MANAGER_DATA_UNCORRECTABLE_ERRORS_REG_OFFSET'', ''0x4''),
      (''HCI_ECC_MANAGER_METADATA_CORRECTABLE_ERRORS_REG_OFFSET'', ''0x8''),
      (''HCI_ECC_MANAGER_METADATA_UNCORRECTABLE_ERRORS_REG_OFFSET'', ''0xc'')] =
   Some
     [\<lparr>reg_name = ''DATA_CORRECTABLE_ERRORS'', reg_offset = 0\<rparr>,
      \<lparr>reg_name = ''DATA_UNCORRECTABLE_ERRORS'', reg_offset = 4\<rparr>,
      \<lparr>reg_name = ''METADATA_CORRECTABLE_ERRORS'', reg_offset = 8\<rparr>,
      \<lparr>reg_name = ''METADATA_UNCORRECTABLE_ERRORS'', reg_offset = 12\<rparr>]"
  by code_simp

lemma literal_values:
  "c_int_literal ''32'' = Some 32" "c_int_literal ''0x0'' = Some 0"
  "c_int_literal ''0x4'' = Some 4" "c_int_literal ''0x8'' = Some 8"
  "c_int_literal ''0xc'' = Some 12"
  by code_simp+

lemma included_block_fresh:
  assumes "fresh u"
  shows "included_block u = Some
    \<lparr>param_width = 32,
     registers =
       [\<lparr>reg_name = ''DATA_CORRECTABLE_ERRORS'', reg_offset = 0\<rparr>,
        \<lparr>reg_name = ''DATA_UNCORRECTABLE_ERRORS'', reg_offset = 4\<rparr>,
        \<lparr>reg_name = ''METADATA_CORRECTABLE_ERRORS'', reg_offset = 8\<rparr>,
        \<lparr>reg_name = ''METADATA_UNCORRECTABLE_ERRORS'', reg_offset = 12\<rparr>]\<rparr>"
proof -
  have w: "map_of (macros u) ''HCI_ECC_MANAGER_PARAM_REG_WIDTH'' = None"
    using assms by (rule fresh_block) (simp add: starts_with_def block_prefix_def)
  have r: "\<And>ys. registers_of (macros u @ ys) = registers_of ys"
    using assms unfolding fresh_def by (rule registers_of_skip)
  show ?thesis
    unfolding included_block_def include_fresh [OF assms]
    by (simp add: block_of_def width_macro_def map_add_def w r header_registers literal_values
          del: registers_of.simps)
qed

lemma fresh_c_unit: "fresh c_unit"
  by (simp add: fresh_def c_unit_def)

lemma fresh_cpp_unit: "fresh (cpp_unit v)"
  by (simp add: fresh_def cpp_unit_def guard_macro_def starts_with_def block_prefix_def)

text \<open>After a successful inclusion the guard is defined, whatever the unit was.\<close>

lemma included_guard:
  assumes "include_file ECC_h u = Inr u'"
  shows "\<exists>x. map_of (macros u') ''_HCI_ECC_MANAGER_REG_DEFS_'' = Some x"
proof (cases "map_of (macros u) ''_HCI_ECC_MANAGER_REG_DEFS_''")
  case (Some x)
  from guarded_skip [OF Some] assms have "u' = u" by simp
  with Some show ?thesis by simp
next
  case None
  define u1 where "u1 = u\<lparr>macros := macros u @ [(''_HCI_ECC_MANAGER_REG_DEFS_'', [])]\<rparr>"
  from assms have h: "run (map parse_line ECC_h) [] u = Inr u'"
    by (simp add: include_file_def)
  note h' = h [unfolded ECC_h_parsed run_guard_open_None [OF None], folded u1_def]
  from run_extends [OF h'] obtain zs where "macros u' = macros u1 @ zs" by blast
  moreover have "map_of (macros u1) ''_HCI_ECC_MANAGER_REG_DEFS_'' = Some []"
    using None by (simp add: u1_def map_add_def)
  ultimately show ?thesis by (simp del: map_of_append add: map_of_kept)
qed

lemma include_again:
  assumes "include_file ECC_h u = Inr u'"
  shows "include_file ECC_h u' = Inr u'"
proof -
  from included_guard [OF assms] obtain x
    where "map_of (macros u') ''_HCI_ECC_MANAGER_REG_DEFS_'' = Some x" ..
  then show ?thesis by (rule guarded_skip)
qed

lemma fresh_lookup:
  assumes "fresh u" and "include_file ECC_h u = Inr r" and "starts_with block_prefix n"
  shows "map_of (macros r) n =
    map_of
      [(''HCI_ECC_MANAGER_PARAM_REG_WIDTH'', ''32''),
       (''HCI_ECC_MANAGER_DATA_CORRECTABLE_ERRORS_REG_OFFSET'', ''0x0''),
       (''HCI_ECC_MANAGER_DATA_UNCORRECTABLE_ERRORS_REG_OFFSET'', ''0x4''),
       (''HCI_ECC_MANAGER_METADATA_CORRECTABLE_ERRORS_REG_OFFSET'', ''0x8''),
       (''HCI_ECC_MANAGER_METADATA_UNCORRECTABLE_ERRORS_REG_OFFSET'', ''0xc'')] n"
proof -
  have none: "map_of (macros u) n = None"
    using assms(1,3) by (rule fresh_block)
  have "\<not> starts_with block_prefix ''_HCI_ECC_MANAGER_REG_DEFS_''"
    by (simp add: starts_with_def block_prefix_def)
  with assms(3) have ng: "n \<noteq> ''_HCI_ECC_MANAGER_REG_DEFS_''" by blast
  from assms(2) have "macros r = macros u @
      [(''_HCI_ECC_MANAGER_REG_DEFS_'', []),
       (''HCI_ECC_MANAGER_PARAM_REG_WIDTH'', ''32''),
       (''HCI_ECC_MANAGER_DATA_CORRECTABLE_ERRORS_REG_OFFSET'', ''0x0''),
       (''HCI_ECC_MANAGER_DATA_UNCORRECTABLE_ERRORS_REG_OFFSET'', ''0x4''),
       (''HCI_ECC_MANAGER_METADATA_CORRECTABLE_ERRORS_REG_OFFSET'', ''0x8''),
       (''HCI_ECC_MANAGER_METADATA_UNCORRECTABLE_ERRORS_REG_OFFSET'', ''0xc'')]"
    unfolding include_fresh [OF assms(1)] by auto
  then show ?thesis
    using none ng by (simp add: map_add_def del: map_of.simps(2)) (simp add: ng [symmetric])
qed

lemma fresh_constants:
  assumes "fresh u" and "include_file ECC_h u = Inr r"
  shows "constant_value r ''HCI_ECC_MANAGER_PARAM_REG_WIDTH'' = Inr 32"
    and "constant_value r ''HCI_ECC_MANAGER_DATA_CORRECTABLE_ERRORS_REG_OFFSET'' = Inr 0"
    and "constant_value r ''HCI_ECC_MANAGER_DATA_UNCORRECTABLE_ERRORS_REG_OFFSET'' = Inr 4"
    and "constant_value r ''HCI_ECC_MANAGER_METADATA_CORRECTABLE_ERRORS_REG_OFFSET'' = Inr 8"
    and "constant_value r ''HCI_ECC_MANAGER_METADATA_UNCORRECTABLE_ERRORS_REG_OFFSET'' = Inr 12"
proof -
  have p: "starts_with block_prefix ''HCI_ECC_MANAGER_PARAM_REG_WIDTH''"
    "starts_with block_prefix ''HCI_ECC_MANAGER_DATA_CORRECTABLE_ERRORS_REG_OFFSET''"
    "starts_with block_prefix ''HCI_ECC_MANAGER_DATA_UNCORRECTABLE_ERRORS_REG_OFFSET''"
    "starts_with block_prefix ''HCI_ECC_MANAGER_METADATA_CORRECTABLE_ERRORS_REG_OFFSET''"
    "starts_with block_prefix ''HCI_ECC_MANAGER_METADATA_UNCORRECTABLE_ERRORS_REG_OFFSET''"
    by (simp_all add: starts_with_def block_prefix_def)
  show "constant_value r ''HCI_ECC_MANAGER_PARAM_REG_WIDTH'' = Inr 32"
    unfolding constant_value_def fresh_lookup [OF assms p(1)]
    by (simp add: literal_values)
  show "constant_value r ''HCI_ECC_MANAGER_DATA_CORRECTABLE_ERRORS_REG_OFFSET'' = Inr 0"
    unfolding constant_value_def fresh_lookup [OF assms p(2)]
    by (simp add: literal_values)
  show "constant_value r ''HCI_ECC_MANAGER_DATA_UNCORRECTABLE_ERRORS_REG_OFFSET'' = Inr 4"
    unfolding constant_value_def fresh_lookup [OF assms p(3)]
    by (simp add: literal_values)
  show "constant_value r ''HCI_ECC_MANAGER_METADATA_CORRECTABLE_ERRORS_REG_OFFSET'' = Inr 8"
    unfolding constant_value_def fresh_lookup [OF assms p(4)]
    by (simp add: literal_values)
  show "constant_value r ''HCI_ECC_MANAGER_METADATA_UNCORRECTABLE_ERRORS_REG_OFFSET'' = Inr 12"
    unfolding constant_value_def fresh_lookup [OF assms p(5)]
    by (simp add: literal_values)
qed

lemma fresh_succeeds:
  assumes "fresh u"
  shows "\<exists>r. include_file ECC_h u = Inr r"
  unfolding include_fresh [OF assms] by blast

lemma fresh_emitted:
  assumes "fresh u" and "include_file ECC_h u = Inr r"
  shows \<open>emitted r = emitted u @
    (if map_of (macros u) ''__cplusplus'' = None then [] else [''extern "C" {'', ''}''])\<close>
  using emitted_any [OF assms(2)] fresh_guard [OF assms(1)] by simp

lemma fresh_block_of:
  assumes "fresh u" and "include_file ECC_h u = Inr r"
  shows "block_of (macros r) = included_block u"
  using assms(2) by (simp add: included_block_def)

lemma fresh_registers:
  assumes "fresh u" and "included_block u = Some blk"
  shows "param_width blk = 32"
    and "registers blk =
        [\<lparr>reg_name = ''DATA_CORRECTABLE_ERRORS'', reg_offset = 0\<rparr>,
         \<lparr>reg_name = ''DATA_UNCORRECTABLE_ERRORS'', reg_offset = 4\<rparr>,
         \<lparr>reg_name = ''METADATA_CORRECTABLE_ERRORS'', reg_offset = 8\<rparr>,
         \<lparr>reg_name = ''METADATA_UNCORRECTABLE_ERRORS'', reg_offset = 12\<rparr>]"
  using assms(2) unfolding included_block_fresh [OF assms(1)] by auto

lemma include_c_unit:
  "include_file ECC_h c_unit = Inr
     \<lparr>macros =
         [(''_HCI_ECC_MANAGER_REG_DEFS_'', []),
          (''HCI_ECC_MANAGER_PARAM_REG_WIDTH'', ''32''),
          (''HCI_ECC_MANAGER_DATA_CORRECTABLE_ERRORS_REG_OFFSET'', ''0x0''),
          (''HCI_ECC_MANAGER_DATA_UNCORRECTABLE_ERRORS_REG_OFFSET'', ''0x4''),
          (''HCI_ECC_MANAGER_METADATA_CORRECTABLE_ERRORS_REG_OFFSET'', ''0x8''),
          (''HCI_ECC_MANAGER_METADATA_UNCORRECTABLE_ERRORS_REG_OFFSET'', ''0xc'')],
       emitted = []\<rparr>"
  unfolding include_fresh [OF fresh_c_unit] by (simp add: c_unit_def)

lemma include_cpp_unit:
  \<open>include_file ECC_h (cpp_unit ''201703L'') = Inr
     \<lparr>macros =
         [(''__cplusplus'', ''201703L''),
          (''_HCI_ECC_MANAGER_REG_DEFS_'', []),
          (''HCI_ECC_MANAGER_PARAM_REG_WIDTH'', ''32''),
          (''HCI_ECC_MANAGER_DATA_CORRECTABLE_ERRORS_REG_OFFSET'', ''0x0''),
          (''HCI_ECC_MANAGER_DATA_UNCORRECTABLE_ERRORS_REG_OFFSET'', ''0x4''),
          (''HCI_ECC_MANAGER_METADATA_CORRECTABLE_ERRORS_REG_OFFSET'', ''0x8''),
          (''HCI_ECC_MANAGER_METADATA_UNCORRECTABLE_ERRORS_REG_OFFSET'', ''0xc'')],
       emitted = [''extern "C" {'', ''}'']\<rparr>\<close>
  unfolding include_fresh [OF fresh_cpp_unit] by (simp add: cpp_unit_def)

lemma block_c_unit:
  "included_block c_unit = Some
     \<lparr>param_width = 32,
       registers =
         [\<lparr>reg_name = ''DATA_CORRECTABLE_ERRORS'', reg_offset = 0\<rparr>,
          \<lparr>reg_name = ''DATA_UNCORRECTABLE_ERRORS'', reg_offset = 4\<rparr>,
          \<lparr>reg_name = ''METADATA_CORRECTABLE_ERRORS'', reg_offset = 8\<rparr>,
          \<lparr>reg_name = ''METADATA_UNCORRECTABLE_ERRORS'', reg_offset = 12\<rparr>]\<rparr>"
  by (rule included_block_fresh [OF fresh_c_unit])

section \<open>The claims\<close>

text \<open>
  Claim C1. The block \<^verbatim>\<open>HCI_ECC_MANAGER\<close> defines exactly four register offset constants
  and one width constant: width 32, \<^verbatim>\<open>DATA_CORRECTABLE_ERRORS\<close> at 0x0,
  \<^verbatim>\<open>DATA_UNCORRECTABLE_ERRORS\<close> at 0x4, \<^verbatim>\<open>METADATA_CORRECTABLE_ERRORS\<close> at 0x8 and
  \<^verbatim>\<open>METADATA_UNCORRECTABLE_ERRORS\<close> at 0xc; there is no fifth offset constant.

  Preprocessing the header in an empty C translation unit leaves exactly six macros: the
  inclusion guard, whose replacement text is empty, the width and the four offsets. The
  register block read back from that table has width 32 and exactly the four registers, at
  the stated offsets.
\<close>

theorem ecc_h_constants:
  "include_file ECC_h c_unit = Inr
     \<lparr>macros =
         [(''_HCI_ECC_MANAGER_REG_DEFS_'', []),
          (''HCI_ECC_MANAGER_PARAM_REG_WIDTH'', ''32''),
          (''HCI_ECC_MANAGER_DATA_CORRECTABLE_ERRORS_REG_OFFSET'', ''0x0''),
          (''HCI_ECC_MANAGER_DATA_UNCORRECTABLE_ERRORS_REG_OFFSET'', ''0x4''),
          (''HCI_ECC_MANAGER_METADATA_CORRECTABLE_ERRORS_REG_OFFSET'', ''0x8''),
          (''HCI_ECC_MANAGER_METADATA_UNCORRECTABLE_ERRORS_REG_OFFSET'', ''0xc'')],
       emitted = []\<rparr>
   \<and> included_block c_unit = Some
     \<lparr>param_width = 32,
      registers =
        [\<lparr>reg_name = ''DATA_CORRECTABLE_ERRORS'', reg_offset = 0x0\<rparr>,
         \<lparr>reg_name = ''DATA_UNCORRECTABLE_ERRORS'', reg_offset = 0x4\<rparr>,
         \<lparr>reg_name = ''METADATA_CORRECTABLE_ERRORS'', reg_offset = 0x8\<rparr>,
         \<lparr>reg_name = ''METADATA_UNCORRECTABLE_ERRORS'', reg_offset = 0xc\<rparr>]\<rparr>"
  using include_c_unit block_c_unit by simp

text \<open>
  Claim C2. For every pair of distinct register names in the block, the offsets assigned to
  them differ: no two registers alias the same offset. This holds for the block seen by
  every translation unit that is fresh for the header.
\<close>

theorem offsets_unique:
  assumes "fresh u" and "included_block u = Some blk"
    and "r1 \<in> set (registers blk)" and "r2 \<in> set (registers blk)"
    and "reg_name r1 \<noteq> reg_name r2"
  shows "reg_offset r1 \<noteq> reg_offset r2"
  using assms(3-5) unfolding fresh_registers(2) [OF assms(1,2)] by auto

theorem offsets_unique_witness:
  "fresh c_unit
   \<and> included_block c_unit = Some
      \<lparr>param_width = 32,
       registers =
         [\<lparr>reg_name = ''DATA_CORRECTABLE_ERRORS'', reg_offset = 0\<rparr>,
          \<lparr>reg_name = ''DATA_UNCORRECTABLE_ERRORS'', reg_offset = 4\<rparr>,
          \<lparr>reg_name = ''METADATA_CORRECTABLE_ERRORS'', reg_offset = 8\<rparr>,
          \<lparr>reg_name = ''METADATA_UNCORRECTABLE_ERRORS'', reg_offset = 12\<rparr>]\<rparr>
   \<and> reg_name \<lparr>reg_name = ''DATA_UNCORRECTABLE_ERRORS'', reg_offset = 4\<rparr>
       \<noteq> reg_name \<lparr>reg_name = ''METADATA_CORRECTABLE_ERRORS'', reg_offset = 8\<rparr>
   \<and> reg_offset \<lparr>reg_name = ''DATA_UNCORRECTABLE_ERRORS'', reg_offset = 4\<rparr>
       \<noteq> reg_offset \<lparr>reg_name = ''METADATA_CORRECTABLE_ERRORS'', reg_offset = 8\<rparr>"
proof -
  let ?r1 = "\<lparr>reg_name = ''DATA_UNCORRECTABLE_ERRORS'', reg_offset = 4\<rparr>"
  let ?r2 = "\<lparr>reg_name = ''METADATA_CORRECTABLE_ERRORS'', reg_offset = 8\<rparr>"
  let ?blk = "\<lparr>param_width = 32,
       registers =
         [\<lparr>reg_name = ''DATA_CORRECTABLE_ERRORS'', reg_offset = 0\<rparr>,
          \<lparr>reg_name = ''DATA_UNCORRECTABLE_ERRORS'', reg_offset = 4\<rparr>,
          \<lparr>reg_name = ''METADATA_CORRECTABLE_ERRORS'', reg_offset = 8\<rparr>,
          \<lparr>reg_name = ''METADATA_UNCORRECTABLE_ERRORS'', reg_offset = 12\<rparr>]\<rparr>"
  have b: "included_block c_unit = Some ?blk"
    by (rule block_c_unit)
  have m1: "?r1 \<in> set (registers ?blk)" by simp
  have m2: "?r2 \<in> set (registers ?blk)" by simp
  have n: "reg_name ?r1 \<noteq> reg_name ?r2" by simp
  from offsets_unique [OF fresh_c_unit b m1 m2 n] fresh_c_unit b n
  show ?thesis by blast
qed

text \<open>
  Claim C3. For every register in the block, its byte offset is a multiple of width/8
  bytes; the width is 32 bits, so width/8 is 4 and every offset is 0 modulo 4.
\<close>

theorem offsets_aligned:
  assumes "fresh u" and "included_block u = Some blk" and "r \<in> set (registers blk)"
  shows "param_width blk div 8 = 4 \<and> reg_offset r mod (param_width blk div 8) = 0"
  using assms(3) unfolding fresh_registers [OF assms(1,2)] by auto

theorem offsets_aligned_witness:
  "fresh c_unit
   \<and> included_block c_unit = Some
      \<lparr>param_width = 32,
       registers =
         [\<lparr>reg_name = ''DATA_CORRECTABLE_ERRORS'', reg_offset = 0\<rparr>,
          \<lparr>reg_name = ''DATA_UNCORRECTABLE_ERRORS'', reg_offset = 4\<rparr>,
          \<lparr>reg_name = ''METADATA_CORRECTABLE_ERRORS'', reg_offset = 8\<rparr>,
          \<lparr>reg_name = ''METADATA_UNCORRECTABLE_ERRORS'', reg_offset = 12\<rparr>]\<rparr>
   \<and> reg_offset \<lparr>reg_name = ''METADATA_UNCORRECTABLE_ERRORS'', reg_offset = 12\<rparr>
       mod (param_width
      \<lparr>param_width = 32,
       registers =
         [\<lparr>reg_name = ''DATA_CORRECTABLE_ERRORS'', reg_offset = 0\<rparr>,
          \<lparr>reg_name = ''DATA_UNCORRECTABLE_ERRORS'', reg_offset = 4\<rparr>,
          \<lparr>reg_name = ''METADATA_CORRECTABLE_ERRORS'', reg_offset = 8\<rparr>,
          \<lparr>reg_name = ''METADATA_UNCORRECTABLE_ERRORS'', reg_offset = 12\<rparr>]\<rparr> div 8) = 0"
proof -
  let ?r = "\<lparr>reg_name = ''METADATA_UNCORRECTABLE_ERRORS'', reg_offset = 12\<rparr>"
  let ?blk = "\<lparr>param_width = 32,
       registers =
         [\<lparr>reg_name = ''DATA_CORRECTABLE_ERRORS'', reg_offset = 0\<rparr>,
          \<lparr>reg_name = ''DATA_UNCORRECTABLE_ERRORS'', reg_offset = 4\<rparr>,
          \<lparr>reg_name = ''METADATA_CORRECTABLE_ERRORS'', reg_offset = 8\<rparr>,
          \<lparr>reg_name = ''METADATA_UNCORRECTABLE_ERRORS'', reg_offset = 12\<rparr>]\<rparr>"
  have b: "included_block c_unit = Some ?blk"
    by (rule block_c_unit)
  have m: "?r \<in> set (registers ?blk)" by simp
  from offsets_aligned [OF fresh_c_unit b m] fresh_c_unit b
  show ?thesis by blast
qed

text \<open>
  Claim C4. The register definitions appear in ascending offset order, and the offsets are
  contiguous starting at 0: the first register is at offset 0 and each further register is
  exactly width/8 = 4 bytes above the one defined before it. The list \<open>registers blk\<close> is in
  the order of the \<^verbatim>\<open>#define\<close> lines of the file.
\<close>

theorem offsets_contiguous:
  assumes "fresh u" and "included_block u = Some blk"
  shows "registers blk \<noteq> []
    \<and> reg_offset (hd (registers blk)) = 0
    \<and> sorted_wrt (<) (map reg_offset (registers blk))
    \<and> (\<forall>i. Suc i < length (registers blk) \<longrightarrow>
          reg_offset (registers blk ! Suc i) =
            reg_offset (registers blk ! i) + param_width blk div 8)"
  unfolding fresh_registers [OF assms]
  by (simp add: less_Suc_eq nth_Cons' all_conj_distrib)

theorem offsets_contiguous_witness:
  "fresh c_unit
   \<and> included_block c_unit = Some
      \<lparr>param_width = 32,
       registers =
         [\<lparr>reg_name = ''DATA_CORRECTABLE_ERRORS'', reg_offset = 0\<rparr>,
          \<lparr>reg_name = ''DATA_UNCORRECTABLE_ERRORS'', reg_offset = 4\<rparr>,
          \<lparr>reg_name = ''METADATA_CORRECTABLE_ERRORS'', reg_offset = 8\<rparr>,
          \<lparr>reg_name = ''METADATA_UNCORRECTABLE_ERRORS'', reg_offset = 12\<rparr>]\<rparr>
   \<and> Suc 2 < length (registers
      \<lparr>param_width = 32,
       registers =
         [\<lparr>reg_name = ''DATA_CORRECTABLE_ERRORS'', reg_offset = 0\<rparr>,
          \<lparr>reg_name = ''DATA_UNCORRECTABLE_ERRORS'', reg_offset = 4\<rparr>,
          \<lparr>reg_name = ''METADATA_CORRECTABLE_ERRORS'', reg_offset = 8\<rparr>,
          \<lparr>reg_name = ''METADATA_UNCORRECTABLE_ERRORS'', reg_offset = 12\<rparr>]\<rparr>)
   \<and> reg_offset (registers
      \<lparr>param_width = 32,
       registers =
         [\<lparr>reg_name = ''DATA_CORRECTABLE_ERRORS'', reg_offset = 0\<rparr>,
          \<lparr>reg_name = ''DATA_UNCORRECTABLE_ERRORS'', reg_offset = 4\<rparr>,
          \<lparr>reg_name = ''METADATA_CORRECTABLE_ERRORS'', reg_offset = 8\<rparr>,
          \<lparr>reg_name = ''METADATA_UNCORRECTABLE_ERRORS'', reg_offset = 12\<rparr>]\<rparr> ! Suc 2) =
     reg_offset (registers
      \<lparr>param_width = 32,
       registers =
         [\<lparr>reg_name = ''DATA_CORRECTABLE_ERRORS'', reg_offset = 0\<rparr>,
          \<lparr>reg_name = ''DATA_UNCORRECTABLE_ERRORS'', reg_offset = 4\<rparr>,
          \<lparr>reg_name = ''METADATA_CORRECTABLE_ERRORS'', reg_offset = 8\<rparr>,
          \<lparr>reg_name = ''METADATA_UNCORRECTABLE_ERRORS'', reg_offset = 12\<rparr>]\<rparr> ! 2) + param_width
      \<lparr>param_width = 32,
       registers =
         [\<lparr>reg_name = ''DATA_CORRECTABLE_ERRORS'', reg_offset = 0\<rparr>,
          \<lparr>reg_name = ''DATA_UNCORRECTABLE_ERRORS'', reg_offset = 4\<rparr>,
          \<lparr>reg_name = ''METADATA_CORRECTABLE_ERRORS'', reg_offset = 8\<rparr>,
          \<lparr>reg_name = ''METADATA_UNCORRECTABLE_ERRORS'', reg_offset = 12\<rparr>]\<rparr> div 8"
proof -
  let ?blk = "\<lparr>param_width = 32,
       registers =
         [\<lparr>reg_name = ''DATA_CORRECTABLE_ERRORS'', reg_offset = 0\<rparr>,
          \<lparr>reg_name = ''DATA_UNCORRECTABLE_ERRORS'', reg_offset = 4\<rparr>,
          \<lparr>reg_name = ''METADATA_CORRECTABLE_ERRORS'', reg_offset = 8\<rparr>,
          \<lparr>reg_name = ''METADATA_UNCORRECTABLE_ERRORS'', reg_offset = 12\<rparr>]\<rparr>"
  have b: "included_block c_unit = Some ?blk"
    by (rule block_c_unit)
  have l: "Suc 2 < length (registers ?blk)" by simp
  from offsets_contiguous [OF fresh_c_unit b]
  have "\<forall>i. Suc i < length (registers ?blk) \<longrightarrow>
          reg_offset (registers ?blk ! Suc i) =
            reg_offset (registers ?blk ! i) + param_width ?blk div 8"
    by blast
  with l have "reg_offset (registers ?blk ! Suc 2) =
            reg_offset (registers ?blk ! 2) + param_width ?blk div 8"
    by blast
  with fresh_c_unit b l show ?thesis by blast
qed

text \<open>
  Claim C5. Including the definition set twice in one compilation unit is idempotent: the
  second inclusion adds no new definitions and causes no duplicate-definition error, so the
  resulting constant table equals the table produced by a single inclusion.

  For every translation unit \<open>u\<close>, two inclusions give what one inclusion gives (also when
  the one inclusion fails); and a unit \<open>u'\<close> that an inclusion produced is left exactly as
  it is, macros and emitted text, by a further inclusion.
\<close>

theorem inclusion_idempotent:
  "include_twice ECC_h u = include_file ECC_h u
   \<and> (include_file ECC_h u = Inr u' \<longrightarrow> include_file ECC_h u' = Inr u')"
proof
  show "include_twice ECC_h u = include_file ECC_h u"
  proof (cases "include_file ECC_h u")
    case (Inl e)
    then show ?thesis by (simp add: include_twice_def)
  next
    case (Inr r)
    with include_again [OF Inr] show ?thesis by (simp add: include_twice_def)
  qed
  show "include_file ECC_h u = Inr u' \<longrightarrow> include_file ECC_h u' = Inr u'"
    by (rule impI) (rule include_again)
qed

theorem inclusion_idempotent_witness:
  "include_file ECC_h c_unit = Inr
      \<lparr>macros =
         [(''_HCI_ECC_MANAGER_REG_DEFS_'', []),
          (''HCI_ECC_MANAGER_PARAM_REG_WIDTH'', ''32''),
          (''HCI_ECC_MANAGER_DATA_CORRECTABLE_ERRORS_REG_OFFSET'', ''0x0''),
          (''HCI_ECC_MANAGER_DATA_UNCORRECTABLE_ERRORS_REG_OFFSET'', ''0x4''),
          (''HCI_ECC_MANAGER_METADATA_CORRECTABLE_ERRORS_REG_OFFSET'', ''0x8''),
          (''HCI_ECC_MANAGER_METADATA_UNCORRECTABLE_ERRORS_REG_OFFSET'', ''0xc'')],
       emitted = []\<rparr>
   \<and> include_file ECC_h
      \<lparr>macros =
         [(''_HCI_ECC_MANAGER_REG_DEFS_'', []),
          (''HCI_ECC_MANAGER_PARAM_REG_WIDTH'', ''32''),
          (''HCI_ECC_MANAGER_DATA_CORRECTABLE_ERRORS_REG_OFFSET'', ''0x0''),
          (''HCI_ECC_MANAGER_DATA_UNCORRECTABLE_ERRORS_REG_OFFSET'', ''0x4''),
          (''HCI_ECC_MANAGER_METADATA_CORRECTABLE_ERRORS_REG_OFFSET'', ''0x8''),
          (''HCI_ECC_MANAGER_METADATA_UNCORRECTABLE_ERRORS_REG_OFFSET'', ''0xc'')],
       emitted = []\<rparr> = Inr
      \<lparr>macros =
         [(''_HCI_ECC_MANAGER_REG_DEFS_'', []),
          (''HCI_ECC_MANAGER_PARAM_REG_WIDTH'', ''32''),
          (''HCI_ECC_MANAGER_DATA_CORRECTABLE_ERRORS_REG_OFFSET'', ''0x0''),
          (''HCI_ECC_MANAGER_DATA_UNCORRECTABLE_ERRORS_REG_OFFSET'', ''0x4''),
          (''HCI_ECC_MANAGER_METADATA_CORRECTABLE_ERRORS_REG_OFFSET'', ''0x8''),
          (''HCI_ECC_MANAGER_METADATA_UNCORRECTABLE_ERRORS_REG_OFFSET'', ''0xc'')],
       emitted = []\<rparr>
   \<and> include_twice ECC_h c_unit = Inr
      \<lparr>macros =
         [(''_HCI_ECC_MANAGER_REG_DEFS_'', []),
          (''HCI_ECC_MANAGER_PARAM_REG_WIDTH'', ''32''),
          (''HCI_ECC_MANAGER_DATA_CORRECTABLE_ERRORS_REG_OFFSET'', ''0x0''),
          (''HCI_ECC_MANAGER_DATA_UNCORRECTABLE_ERRORS_REG_OFFSET'', ''0x4''),
          (''HCI_ECC_MANAGER_METADATA_CORRECTABLE_ERRORS_REG_OFFSET'', ''0x8''),
          (''HCI_ECC_MANAGER_METADATA_UNCORRECTABLE_ERRORS_REG_OFFSET'', ''0xc'')],
       emitted = []\<rparr>"
proof -
  let ?t = "\<lparr>macros =
         [(''_HCI_ECC_MANAGER_REG_DEFS_'', []),
          (''HCI_ECC_MANAGER_PARAM_REG_WIDTH'', ''32''),
          (''HCI_ECC_MANAGER_DATA_CORRECTABLE_ERRORS_REG_OFFSET'', ''0x0''),
          (''HCI_ECC_MANAGER_DATA_UNCORRECTABLE_ERRORS_REG_OFFSET'', ''0x4''),
          (''HCI_ECC_MANAGER_METADATA_CORRECTABLE_ERRORS_REG_OFFSET'', ''0x8''),
          (''HCI_ECC_MANAGER_METADATA_UNCORRECTABLE_ERRORS_REG_OFFSET'', ''0xc'')],
       emitted = []\<rparr>"
  have h: "include_file ECC_h c_unit = Inr ?t"
    by (rule include_c_unit)
  from inclusion_idempotent [of c_unit ?t]
  have "include_twice ECC_h c_unit = include_file ECC_h c_unit"
    and "include_file ECC_h c_unit = Inr ?t \<longrightarrow> include_file ECC_h ?t = Inr ?t"
    by blast+
  with h show ?thesis by simp
qed

text \<open>
  Claim C6. The definition set presents identical constants (same names, same values)
  whether it is consumed from a C translation unit or from a C++ translation unit.

  Let \<open>u\<close> be a fresh unit without \<^verbatim>\<open>__cplusplus\<close> (a C consumer) and \<open>u'\<close> a fresh unit
  with \<^verbatim>\<open>__cplusplus\<close> defined (a C++ consumer). Both inclusions succeed; every name under
  the block prefix has the same replacement text and the same value in both results, and
  both see the same register block. The results differ in the emitted text only: nothing
  for C, the opening and closing line of the \<^verbatim>\<open>extern "C"\<close> block for C++.
\<close>

theorem c_and_cpp_same_constants:
  assumes "fresh u" and "fresh u'"
    and "map_of (macros u) ''__cplusplus'' = None"
    and "map_of (macros u') ''__cplusplus'' = Some v"
  shows \<open>\<exists>r r'. include_file ECC_h u = Inr r \<and> include_file ECC_h u' = Inr r'
     \<and> (\<forall>n. starts_with block_prefix n \<longrightarrow>
           map_of (macros r) n = map_of (macros r') n
           \<and> constant_value r n = constant_value r' n)
     \<and> block_of (macros r) = block_of (macros r')
     \<and> block_of (macros r) \<noteq> None
     \<and> emitted r = emitted u
     \<and> emitted r' = emitted u' @ [''extern "C" {'', ''}'']\<close>
proof -
  from fresh_succeeds [OF assms(1)] obtain r where r: "include_file ECC_h u = Inr r" ..
  from fresh_succeeds [OF assms(2)] obtain r' where r': "include_file ECC_h u' = Inr r'" ..
  have same: "map_of (macros r) n = map_of (macros r') n" if "starts_with block_prefix n" for n
    using fresh_lookup [OF assms(1) r that] fresh_lookup [OF assms(2) r' that] by simp
  then have val: "constant_value r n = constant_value r' n" if "starts_with block_prefix n" for n
    using that by (simp add: constant_value_def)
  have blk: "block_of (macros r) = block_of (macros r')"
    using fresh_block_of [OF assms(1) r] fresh_block_of [OF assms(2) r']
      included_block_fresh [OF assms(1)] included_block_fresh [OF assms(2)] by simp
  have some: "block_of (macros r) \<noteq> None"
    using fresh_block_of [OF assms(1) r] included_block_fresh [OF assms(1)] by simp
  have e: "emitted r = emitted u"
    using fresh_emitted [OF assms(1) r] assms(3) by simp
  have e': \<open>emitted r' = emitted u' @ [''extern "C" {'', ''}'']\<close>
    using fresh_emitted [OF assms(2) r'] assms(4) by simp
  from r r' same val blk some e e' show ?thesis by blast
qed

theorem c_and_cpp_same_constants_witness:
  "fresh c_unit \<and> fresh (cpp_unit ''201703L'')
   \<and> map_of (macros c_unit) ''__cplusplus'' = None
   \<and> map_of (macros (cpp_unit ''201703L'')) ''__cplusplus'' = Some ''201703L''
   \<and> (\<exists>r r'. include_file ECC_h c_unit = Inr r
         \<and> include_file ECC_h (cpp_unit ''201703L'') = Inr r'
         \<and> block_of (macros r) = block_of (macros r')
         \<and> block_of (macros r) \<noteq> None)"
proof -
  have c: "map_of (macros c_unit) ''__cplusplus'' = None"
    by (simp add: c_unit_def)
  have p: "map_of (macros (cpp_unit ''201703L'')) ''__cplusplus'' = Some ''201703L''"
    by (simp add: cpp_unit_def)
  from c_and_cpp_same_constants [OF fresh_c_unit fresh_cpp_unit c p]
  have "\<exists>r r'. include_file ECC_h c_unit = Inr r
         \<and> include_file ECC_h (cpp_unit ''201703L'') = Inr r'
         \<and> block_of (macros r) = block_of (macros r')
         \<and> block_of (macros r) \<noteq> None"
    by blast
  with fresh_c_unit fresh_cpp_unit c p show ?thesis by blast
qed

text \<open>
  Claim C7. No operation on the artifact can fail: looking up any of its named constants
  always yields a value, never an error.

  In every unit that is fresh for the header the inclusion succeeds, each of the five
  constants evaluates to a number, and so does every defined name under the block prefix.
  The named constants are the width and the four offsets; the inclusion guard stands
  outside the block prefix and has an empty replacement text. The only error of the run,
  \<open>Redefinition\<close>, needs a unit that has already given one of the names another text, which
  a fresh unit has not.
\<close>

theorem no_failure:
  assumes "fresh u"
  shows "\<exists>r. include_file ECC_h u = Inr r
     \<and> (\<forall>n \<in> set [''HCI_ECC_MANAGER_PARAM_REG_WIDTH'',
                   ''HCI_ECC_MANAGER_DATA_CORRECTABLE_ERRORS_REG_OFFSET'',
                   ''HCI_ECC_MANAGER_DATA_UNCORRECTABLE_ERRORS_REG_OFFSET'',
                   ''HCI_ECC_MANAGER_METADATA_CORRECTABLE_ERRORS_REG_OFFSET'',
                   ''HCI_ECC_MANAGER_METADATA_UNCORRECTABLE_ERRORS_REG_OFFSET''].
           \<exists>v. constant_value r n = Inr v)
     \<and> (\<forall>n. starts_with block_prefix n \<and> map_of (macros r) n \<noteq> None \<longrightarrow>
           (\<exists>v. constant_value r n = Inr v))"
proof -
  from fresh_succeeds [OF assms] obtain r where r: "include_file ECC_h u = Inr r" ..
  note c = fresh_constants [OF assms r]
  have five: "\<forall>n \<in> set [''HCI_ECC_MANAGER_PARAM_REG_WIDTH'',
                   ''HCI_ECC_MANAGER_DATA_CORRECTABLE_ERRORS_REG_OFFSET'',
                   ''HCI_ECC_MANAGER_DATA_UNCORRECTABLE_ERRORS_REG_OFFSET'',
                   ''HCI_ECC_MANAGER_METADATA_CORRECTABLE_ERRORS_REG_OFFSET'',
                   ''HCI_ECC_MANAGER_METADATA_UNCORRECTABLE_ERRORS_REG_OFFSET''].
           \<exists>v. constant_value r n = Inr v"
    using c by simp
  have every: "\<exists>v. constant_value r n = Inr v"
    if p: "starts_with block_prefix n" and d: "map_of (macros r) n \<noteq> None" for n
  proof -
    from d have "map_of
      [(''HCI_ECC_MANAGER_PARAM_REG_WIDTH'', ''32''),
       (''HCI_ECC_MANAGER_DATA_CORRECTABLE_ERRORS_REG_OFFSET'', ''0x0''),
       (''HCI_ECC_MANAGER_DATA_UNCORRECTABLE_ERRORS_REG_OFFSET'', ''0x4''),
       (''HCI_ECC_MANAGER_METADATA_CORRECTABLE_ERRORS_REG_OFFSET'', ''0x8''),
       (''HCI_ECC_MANAGER_METADATA_UNCORRECTABLE_ERRORS_REG_OFFSET'', ''0xc'')] n \<noteq> None"
      unfolding fresh_lookup [OF assms r p] .
    then have "n \<in> set [''HCI_ECC_MANAGER_PARAM_REG_WIDTH'',
                   ''HCI_ECC_MANAGER_DATA_CORRECTABLE_ERRORS_REG_OFFSET'',
                   ''HCI_ECC_MANAGER_DATA_UNCORRECTABLE_ERRORS_REG_OFFSET'',
                   ''HCI_ECC_MANAGER_METADATA_CORRECTABLE_ERRORS_REG_OFFSET'',
                   ''HCI_ECC_MANAGER_METADATA_UNCORRECTABLE_ERRORS_REG_OFFSET'']"
      by (simp split: if_splits)
    with five show ?thesis by blast
  qed
  from r five every show ?thesis by blast
qed

theorem no_failure_witness:
  "fresh c_unit
   \<and> (\<exists>r. include_file ECC_h c_unit = Inr r
         \<and> (\<exists>v. constant_value r
               ''HCI_ECC_MANAGER_METADATA_UNCORRECTABLE_ERRORS_REG_OFFSET'' = Inr v))"
proof -
  from no_failure [OF fresh_c_unit] obtain r
    where r: "include_file ECC_h c_unit = Inr r"
      and a: "\<forall>n \<in> set [''HCI_ECC_MANAGER_PARAM_REG_WIDTH'',
                   ''HCI_ECC_MANAGER_DATA_CORRECTABLE_ERRORS_REG_OFFSET'',
                   ''HCI_ECC_MANAGER_DATA_UNCORRECTABLE_ERRORS_REG_OFFSET'',
                   ''HCI_ECC_MANAGER_METADATA_CORRECTABLE_ERRORS_REG_OFFSET'',
                   ''HCI_ECC_MANAGER_METADATA_UNCORRECTABLE_ERRORS_REG_OFFSET''].
           \<exists>v. constant_value r n = Inr v"
    by blast
  from a have "\<exists>v. constant_value r
      ''HCI_ECC_MANAGER_METADATA_UNCORRECTABLE_ERRORS_REG_OFFSET'' = Inr v"
    by simp
  with r fresh_c_unit show ?thesis by blast
qed




text \<open>
  Claim C9 speaks about two runs of the program that generated this header. That program
  is not part of the repository, so no definition here stands for it and nothing is stated
  about it.
\<close>

text \<open>
  Claim C10. For each error category (data and metadata), the offset of the uncorrectable
  counter is the offset of the correctable counter plus width/8 = 4 bytes, both data
  offsets (0x0, 0x4) are strictly less than both metadata offsets (0x8, 0xc), and the i-th
  register in declaration order (i = 0..3) has offset 4*i.
\<close>

theorem offsets_pairing:
  assumes "fresh u" and "include_file ECC_h u = Inr r"
  shows "\<exists>w dc du mc mu blk.
       constant_value r ''HCI_ECC_MANAGER_PARAM_REG_WIDTH'' = Inr w
     \<and> constant_value r ''HCI_ECC_MANAGER_DATA_CORRECTABLE_ERRORS_REG_OFFSET'' = Inr dc
     \<and> constant_value r ''HCI_ECC_MANAGER_DATA_UNCORRECTABLE_ERRORS_REG_OFFSET'' = Inr du
     \<and> constant_value r ''HCI_ECC_MANAGER_METADATA_CORRECTABLE_ERRORS_REG_OFFSET'' = Inr mc
     \<and> constant_value r ''HCI_ECC_MANAGER_METADATA_UNCORRECTABLE_ERRORS_REG_OFFSET'' = Inr mu
     \<and> w div 8 = 4 \<and> du = dc + w div 8 \<and> mu = mc + w div 8
     \<and> dc = 0x0 \<and> du = 0x4 \<and> mc = 0x8 \<and> mu = 0xc
     \<and> dc < mc \<and> dc < mu \<and> du < mc \<and> du < mu
     \<and> block_of (macros r) = Some blk
     \<and> length (registers blk) = 4
     \<and> (\<forall>i < 4. reg_offset (registers blk ! i) = 4 * i)"
proof -
  note c = fresh_constants [OF assms]
  obtain blk where b: "block_of (macros r) = Some blk"
    using fresh_block_of [OF assms] included_block_fresh [OF assms(1)] by simp
  then have ib: "included_block u = Some blk"
    using fresh_block_of [OF assms] by simp
  note regs = fresh_registers(2) [OF assms(1) ib]
  have len: "length (registers blk) = 4" unfolding regs by simp
  have nth: "\<forall>i < 4. reg_offset (registers blk ! i) = 4 * i"
    unfolding regs by (simp add: less_Suc_eq nth_Cons' numeral_eq_Suc all_conj_distrib)
  have ar: "(32::nat) div 8 = 4" "(4::nat) = 0 + 32 div 8" "(12::nat) = 8 + 32 div 8"
    "(0::nat) = 0x0" "(4::nat) = 0x4" "(8::nat) = 0x8" "(12::nat) = 0xc"
    "(0::nat) < 8" "(0::nat) < 12" "(4::nat) < 8" "(4::nat) < 12"
    by simp_all
  show ?thesis
    apply (rule exI [where x = 32])
    apply (rule exI [where x = 0])
    apply (rule exI [where x = 4])
    apply (rule exI [where x = 8])
    apply (rule exI [where x = 12])
    apply (rule exI [where x = blk])
    using c b len nth ar apply (intro conjI)
    apply assumption+
    done
qed

theorem offsets_pairing_witness:
  "fresh c_unit
   \<and> include_file ECC_h c_unit = Inr
      \<lparr>macros =
         [(''_HCI_ECC_MANAGER_REG_DEFS_'', []),
          (''HCI_ECC_MANAGER_PARAM_REG_WIDTH'', ''32''),
          (''HCI_ECC_MANAGER_DATA_CORRECTABLE_ERRORS_REG_OFFSET'', ''0x0''),
          (''HCI_ECC_MANAGER_DATA_UNCORRECTABLE_ERRORS_REG_OFFSET'', ''0x4''),
          (''HCI_ECC_MANAGER_METADATA_CORRECTABLE_ERRORS_REG_OFFSET'', ''0x8''),
          (''HCI_ECC_MANAGER_METADATA_UNCORRECTABLE_ERRORS_REG_OFFSET'', ''0xc'')],
       emitted = []\<rparr>
   \<and> constant_value
      \<lparr>macros =
         [(''_HCI_ECC_MANAGER_REG_DEFS_'', []),
          (''HCI_ECC_MANAGER_PARAM_REG_WIDTH'', ''32''),
          (''HCI_ECC_MANAGER_DATA_CORRECTABLE_ERRORS_REG_OFFSET'', ''0x0''),
          (''HCI_ECC_MANAGER_DATA_UNCORRECTABLE_ERRORS_REG_OFFSET'', ''0x4''),
          (''HCI_ECC_MANAGER_METADATA_CORRECTABLE_ERRORS_REG_OFFSET'', ''0x8''),
          (''HCI_ECC_MANAGER_METADATA_UNCORRECTABLE_ERRORS_REG_OFFSET'', ''0xc'')],
       emitted = []\<rparr>
       ''HCI_ECC_MANAGER_METADATA_UNCORRECTABLE_ERRORS_REG_OFFSET'' = Inr 12
   \<and> (\<exists>blk. block_of (macros
      \<lparr>macros =
         [(''_HCI_ECC_MANAGER_REG_DEFS_'', []),
          (''HCI_ECC_MANAGER_PARAM_REG_WIDTH'', ''32''),
          (''HCI_ECC_MANAGER_DATA_CORRECTABLE_ERRORS_REG_OFFSET'', ''0x0''),
          (''HCI_ECC_MANAGER_DATA_UNCORRECTABLE_ERRORS_REG_OFFSET'', ''0x4''),
          (''HCI_ECC_MANAGER_METADATA_CORRECTABLE_ERRORS_REG_OFFSET'', ''0x8''),
          (''HCI_ECC_MANAGER_METADATA_UNCORRECTABLE_ERRORS_REG_OFFSET'', ''0xc'')],
       emitted = []\<rparr>) = Some blk
        \<and> reg_offset (registers blk ! 3) = 4 * 3)"
proof -
  let ?t = "\<lparr>macros =
         [(''_HCI_ECC_MANAGER_REG_DEFS_'', []),
          (''HCI_ECC_MANAGER_PARAM_REG_WIDTH'', ''32''),
          (''HCI_ECC_MANAGER_DATA_CORRECTABLE_ERRORS_REG_OFFSET'', ''0x0''),
          (''HCI_ECC_MANAGER_DATA_UNCORRECTABLE_ERRORS_REG_OFFSET'', ''0x4''),
          (''HCI_ECC_MANAGER_METADATA_CORRECTABLE_ERRORS_REG_OFFSET'', ''0x8''),
          (''HCI_ECC_MANAGER_METADATA_UNCORRECTABLE_ERRORS_REG_OFFSET'', ''0xc'')],
       emitted = []\<rparr>"
  have h: "include_file ECC_h c_unit = Inr ?t"
    by (rule include_c_unit)
  from offsets_pairing [OF fresh_c_unit h] obtain mu blk
    where v: "constant_value ?t
        ''HCI_ECC_MANAGER_METADATA_UNCORRECTABLE_ERRORS_REG_OFFSET'' = Inr mu"
      and m: "mu = 0xc"
      and b: "block_of (macros ?t) = Some blk"
      and i: "\<forall>i < 4. reg_offset (registers blk ! i) = 4 * i"
    by blast
  from i have "reg_offset (registers blk ! 3) = 4 * 3" by simp
  with b have "\<exists>blk. block_of (macros ?t) = Some blk
        \<and> reg_offset (registers blk ! 3) = 4 * 3"
    by blast
  moreover from v m have "constant_value ?t
        ''HCI_ECC_MANAGER_METADATA_UNCORRECTABLE_ERRORS_REG_OFFSET'' = Inr 12"
    by simp
  ultimately show ?thesis using fresh_c_unit h by blast
qed

end
